theory Spec2Isabelle
  imports Main "HOL-Library.Sublist"
begin

section \<open>Earnings call scraper: the data model\<close>

text \<open>
  The embedding follows \<^verbatim>\<open>full_earnings_scraper.py\<close>. Text is a list of 8-bit
  characters, read as the code points below U+0100. On these the string operations
  below are Python's: the decimal digits of \<^verbatim>\<open>\d\<close> and of \<^verbatim>\<open>int\<close> are \<open>0\<close> to \<open>9\<close>,
  \<^verbatim>\<open>lower\<close> moves A to Z and the capital letters from U+00C0 to U+00DE, and the white
  space of \<^verbatim>\<open>strip\<close> is as listed. Texts with other code points (digits of other
  scripts among them) lie outside the embedding.
\<close>

record EarningsCall =
  ticker :: string
  company :: string
  title :: string
  url :: string
  call_type :: string
  quarter :: string
  year :: int
  found_on_page :: string
  discovered_at :: string

text \<open>Exceptions that reach the program from the libraries it calls.\<close>

datatype exn = ValueError | RequestException | OtherException

text \<open>What \<^verbatim>\<open>session.get\<close> returns, and what \<^verbatim>\<open>datetime.now()\<close> returns.\<close>

record response =
  status_code :: int
  content :: string

record datetime =
  dt_year :: int
  dt_isoformat :: string

text \<open>
  The program's surroundings. The network and the clock are effects: each call takes the
  world \<open>'w\<close> and returns the next one, so that two requests for one URL may answer
  differently. The library functions are parameters:
  \<^item> \<open>session_get w url timeout\<close> is \<^verbatim>\<open>self.session.get(url, timeout=...)\<close>, which
    returns a response or raises;
  \<^item> \<open>datetime_now\<close> is \<^verbatim>\<open>datetime.now()\<close>;
  \<^item> \<open>urljoin_resolve\<close> is the resolution done by \<^verbatim>\<open>urllib.parse.urljoin\<close> once both
    arguments are non-empty; it raises \<^verbatim>\<open>ValueError\<close> where \<^verbatim>\<open>urlsplit\<close> rejects an
    argument (an authority with an unbalanced square bracket, for one);
  \<^item> \<open>urlparse\<close> gives the scheme and the netloc of \<^verbatim>\<open>urllib.parse.urlparse\<close>;
  \<^item> \<open>find_all_a\<close> is \<^verbatim>\<open>BeautifulSoup(content, 'html.parser').find_all('a', href=True)\<close>,
    each anchor given as its \<^verbatim>\<open>href\<close> and its \<^verbatim>\<open>get_text()\<close>, in document order.
\<close>

record 'w env =
  session_get :: "'w \<Rightarrow> string \<Rightarrow> nat \<Rightarrow> (exn + response) \<times> 'w"
  datetime_now :: "'w \<Rightarrow> datetime \<times> 'w"
  urljoin_resolve :: "string \<Rightarrow> string \<Rightarrow> exn + string"
  urlparse :: "string \<Rightarrow> exn + (string \<times> string)"
  find_all_a :: "string \<Rightarrow> exn + (string \<times> string) list"

section \<open>String operations of the source\<close>

text \<open>
  \<^verbatim>\<open>str.lower()\<close>: the letters A to Z (65 to 90) and the capital letters from U+00C0
  to U+00DE (192 to 222, without the multiplication sign 215) move up by 32.
\<close>

definition lower_char :: "char \<Rightarrow> char" where
  "lower_char c =
     (let n = (of_char c :: nat)
      in if (65 \<le> n \<and> n \<le> 90) \<or> (192 \<le> n \<and> n \<le> 222 \<and> n \<noteq> 215)
         then char_of (n + 32) else c)"

definition str_lower :: "string \<Rightarrow> string" where
  "str_lower s = map lower_char s"

text \<open>
  \<^verbatim>\<open>str.strip()\<close> removes the white space of \<^verbatim>\<open>str.isspace\<close> at both ends: 9 to 13,
  28 to 32, the next-line character 133 and the no-break space 160.
\<close>

definition is_space :: "char \<Rightarrow> bool" where
  "is_space c =
     (let n = (of_char c :: nat)
      in (9 \<le> n \<and> n \<le> 13) \<or> (28 \<le> n \<and> n \<le> 32) \<or> n = 133 \<or> n = 160)"

definition strip :: "string \<Rightarrow> string" where
  "strip s = rev (dropWhile is_space (rev (dropWhile is_space s)))"

text \<open>\<^verbatim>\<open>needle in hay\<close> on strings: \<open>hay\<close> is scanned from the left for a position where \<open>needle\<close> starts.\<close>

fun starts_with :: "string \<Rightarrow> string \<Rightarrow> bool" where
  "starts_with [] hay = True"
| "starts_with (c # cs) [] = False"
| "starts_with (c # cs) (d # ds) = (c = d \<and> starts_with cs ds)"

fun str_in :: "string \<Rightarrow> string \<Rightarrow> bool" where
  "str_in needle [] = (needle = [])"
| "str_in needle (d # ds) = (starts_with needle (d # ds) \<or> str_in needle ds)"

text \<open>\<^verbatim>\<open>re.search(r'q([1-4])', s)\<close>: the group of the leftmost match.\<close>

fun re_search_quarter :: "string \<Rightarrow> char option" where
  "re_search_quarter (c # d # cs) =
     (if c = CHR ''q'' \<and> d \<in> set ''1234'' then Some d else re_search_quarter (d # cs))"
| "re_search_quarter [c] = None"
| "re_search_quarter [] = None"

text \<open>
  \<^verbatim>\<open>re.search(r'(20\d{2})', s)\<close>: the group of the leftmost match. The pattern has no
  word boundary, so the match may lie inside a longer run of digits.
\<close>

definition is_digit :: "char \<Rightarrow> bool" where
  "is_digit c = (c \<in> set ''0123456789'')"

fun re_search_year :: "string \<Rightarrow> string option" where
  "re_search_year (a # b # c # d # cs) =
     (if a = CHR ''2'' \<and> b = CHR ''0'' \<and> is_digit c \<and> is_digit d then Some [a, b, c, d]
      else re_search_year (b # c # d # cs))"
| "re_search_year [a, b, c] = None"
| "re_search_year [a, b] = None"
| "re_search_year [a] = None"
| "re_search_year [] = None"

text \<open>\<^verbatim>\<open>int(s)\<close> on a string of decimal digits.\<close>

definition digit_val :: "char \<Rightarrow> int" where
  "digit_val c = int (of_char c) - 48"

definition int_of_str :: "string \<Rightarrow> int" where
  "int_of_str s = foldl (\<lambda>acc c. 10 * acc + digit_val c) 0 s"

section \<open>The link classifier\<close>

definition earnings_keywords :: "string list" where
  "earnings_keywords =
     [''earnings call'', ''quarterly results'', ''q1'', ''q2'', ''q3'', ''q4'',
      ''conference call'', ''webcast'', ''financial results'', ''investor call'']"

text \<open>
  \<^verbatim>\<open>urllib.parse.urljoin(base, url)\<close>: its two early returns are written out, the
  resolution itself is the parameter.
\<close>

definition urljoin :: "'w env \<Rightarrow> string \<Rightarrow> string \<Rightarrow> exn + string" where
  "urljoin env base u =
     (if base = [] then Inr u else if u = [] then Inr base else urljoin_resolve env base u)"

text \<open>Lines 169 to 176 of the source: the call type.\<close>

definition determine_call_type :: "string \<Rightarrow> string \<Rightarrow> string" where
  "determine_call_type href text_lower =
     (if list_ex (\<lambda>ext. str_in ext (str_lower href)) [''.mp3'', ''.wav'', ''.m4a'']
        then ''audio''
      else if list_ex (\<lambda>ext. str_in ext (str_lower href)) [''.mp4'', ''.webm'']
        then ''video''
      else if str_in ''transcript'' text_lower
        then ''transcript''
      else ''webcast'')"

text \<open>
  \<^verbatim>\<open>_analyze_link\<close> (an Isabelle name cannot start with an underscore). Its first
  parameter, the anchor element, is never read and is left out. The result is the raised
  exception, \<open>None\<close> or the record, with the world after the clock reads.
\<close>

definition analyze_link ::
  "'w env \<Rightarrow> 'w \<Rightarrow> string \<Rightarrow> string \<Rightarrow> string \<Rightarrow> string \<Rightarrow> string
     \<Rightarrow> (exn + EarningsCall option) \<times> 'w" where
  "analyze_link env w href text page_url tick company_name =
     (let text_lower = str_lower text in
      if \<not> list_ex (\<lambda>keyword. str_in keyword text_lower) earnings_keywords
      then (Inr None, w)
      else
        let quarter_match = re_search_quarter text_lower;
            year_match = re_search_year text;
            quart = (case quarter_match of Some d \<Rightarrow> ''Q'' @ [d] | None \<Rightarrow> ''Unknown'');
            (yr, w1) = (case year_match of
                          Some g \<Rightarrow> (int_of_str g, w)
                        | None \<Rightarrow> (let (now, w') = datetime_now env w in (dt_year now, w')));
            ctype = determine_call_type href text_lower
        in (case urljoin env page_url href of
              Inl e \<Rightarrow> (Inl e, w1)
            | Inr full_url \<Rightarrow>
                (let (now, w2) = datetime_now env w1 in
                 (Inr (Some \<lparr>ticker = tick, company = company_name, title = text,
                             url = full_url, call_type = ctype, quarter = quart, year = yr,
                             found_on_page = page_url,
                             discovered_at = dt_isoformat now\<rparr>), w2))))"

section \<open>Scanning a page\<close>

text \<open>
  The loop of \<^verbatim>\<open>_scrape_page\<close> over the anchors: the text is stripped, the anchor is
  classified, and a record (an object, so always true in \<^verbatim>\<open>if call:\<close>) is appended.
  An exception of the classifier ends the scan.
\<close>

fun scan_links ::
  "'w env \<Rightarrow> 'w \<Rightarrow> (string \<times> string) list \<Rightarrow> string \<Rightarrow> string \<Rightarrow> string
     \<Rightarrow> EarningsCall list \<Rightarrow> (exn + EarningsCall list) \<times> 'w" where
  "scan_links env w [] page_url tick company_name calls = (Inr calls, w)"
| "scan_links env w ((href, txt) # links) page_url tick company_name calls =
     (case analyze_link env w href (strip txt) page_url tick company_name of
        (Inl e, w') \<Rightarrow> (Inl e, w')
      | (Inr None, w') \<Rightarrow> scan_links env w' links page_url tick company_name calls
      | (Inr (Some call), w') \<Rightarrow>
          scan_links env w' links page_url tick company_name (calls @ [call]))"

text \<open>\<^verbatim>\<open>_scrape_page\<close>: one request with a timeout of 10 seconds, then the scan.\<close>

definition scrape_page ::
  "'w env \<Rightarrow> 'w \<Rightarrow> string \<Rightarrow> string \<Rightarrow> string \<Rightarrow> (exn + EarningsCall list) \<times> 'w" where
  "scrape_page env w u tick company_name =
     (case session_get env w u 10 of
        (Inl e, w1) \<Rightarrow> (Inl e, w1)
      | (Inr resp, w1) \<Rightarrow>
          if status_code resp \<noteq> 200 then (Inr [], w1)
          else (case find_all_a env (content resp) of
                  Inl e \<Rightarrow> (Inl e, w1)
                | Inr links \<Rightarrow> scan_links env w1 links u tick company_name []))"

section \<open>Probing the guessed event pages\<close>

definition event_urls :: "string \<Rightarrow> string \<Rightarrow> string list" where
  "event_urls scheme domain =
     [scheme @ ''://'' @ domain @ ''/events'',
      scheme @ ''://'' @ domain @ ''/events-and-presentations'',
      scheme @ ''://'' @ domain @ ''/webcasts'',
      scheme @ ''://'' @ domain @ ''/earnings'',
      scheme @ ''://'' @ domain @ ''/investor-relations/events'']"

text \<open>
  The loop of \<^verbatim>\<open>_find_event_pages\<close>: a request with a timeout of 5 seconds; on status
  200 the page is scanned by \<open>scrape_page\<close>, which requests it again. The bare
  \<^verbatim>\<open>except\<close> turns every exception of the body into \<^verbatim>\<open>continue\<close>.
\<close>

fun probe_event_urls ::
  "'w env \<Rightarrow> 'w \<Rightarrow> string list \<Rightarrow> string \<Rightarrow> string \<Rightarrow> EarningsCall list
     \<Rightarrow> EarningsCall list \<times> 'w" where
  "probe_event_urls env w [] tick company_name calls = (calls, w)"
| "probe_event_urls env w (event_url # rest) tick company_name calls =
     (case session_get env w event_url 5 of
        (Inl e, w1) \<Rightarrow> probe_event_urls env w1 rest tick company_name calls
      | (Inr resp, w1) \<Rightarrow>
          if status_code resp = 200 then
            (case scrape_page env w1 event_url tick company_name of
               (Inl e, w2) \<Rightarrow> probe_event_urls env w2 rest tick company_name calls
             | (Inr page_calls, w2) \<Rightarrow>
                 probe_event_urls env w2 rest tick company_name (calls @ page_calls))
          else probe_event_urls env w1 rest tick company_name calls)"

text \<open>
  \<^verbatim>\<open>_find_event_pages\<close>: \<^verbatim>\<open>urlparse(base_url)\<close> stands before the loop, outside
  the \<^verbatim>\<open>try\<close>, so its exception leaves the function.
\<close>

definition find_event_pages ::
  "'w env \<Rightarrow> 'w \<Rightarrow> string \<Rightarrow> string \<Rightarrow> string \<Rightarrow> (exn + EarningsCall list) \<times> 'w" where
  "find_event_pages env w base_url tick company_name =
     (case urlparse env base_url of
        Inl e \<Rightarrow> (Inl e, w)
      | Inr (scheme, domain) \<Rightarrow>
          (let (calls, w') =
                 probe_event_urls env w (event_urls scheme domain) tick company_name []
           in (Inr calls, w')))"

section \<open>The database\<close>

text \<open>
  The table \<^verbatim>\<open>earnings_calls\<close>: the rows in the order of their insertion, each with the
  key \<^verbatim>\<open>id INTEGER PRIMARY KEY\<close> that SQLite assigns. \<^verbatim>\<open>CREATE TABLE IF NOT EXISTS\<close>
  makes an empty table where the file has none and keeps the rows of an earlier run.
\<close>

record stored =
  rowid :: int
  call_of :: EarningsCall

type_synonym table = "stored list"

definition init_db :: "table option \<Rightarrow> table" where
  "init_db existing = (case existing of None \<Rightarrow> [] | Some tbl \<Rightarrow> tbl)"

text \<open>
  A row inserted without an \<^verbatim>\<open>id\<close> gets the largest key in the table plus one (1 in an
  empty table); the keys stay far below \<open>2\<^sup>6\<^sup>3\<close>, where SQLite would choose differently.
\<close>

definition next_rowid :: "table \<Rightarrow> int" where
  "next_rowid tbl = (case tbl of [] \<Rightarrow> 1 | r # rs \<Rightarrow> fold max (map rowid rs) (rowid r) + 1)"

text \<open>
  \<^verbatim>\<open>INSERT OR REPLACE\<close> under \<^verbatim>\<open>url TEXT UNIQUE\<close>: the rows with the new row's
  \<^verbatim>\<open>url\<close> are deleted, then the new row is inserted.
\<close>

definition insert_or_replace :: "table \<Rightarrow> EarningsCall \<Rightarrow> table" where
  "insert_or_replace tbl call =
     filter (\<lambda>r. url (call_of r) \<noteq> url call) tbl @ [\<lparr>rowid = next_rowid tbl, call_of = call\<rparr>]"

text \<open>
  \<^verbatim>\<open>save_call\<close>: an exception of the statement or of the commit is caught and printed,
  and the connection is closed without a commit, which leaves the table as it was.
  Whether SQLite fails is for the surroundings to say.
\<close>

datatype sql_outcome = Committed | Failed

definition save_call :: "sql_outcome \<Rightarrow> table \<Rightarrow> EarningsCall \<Rightarrow> table" where
  "save_call outcome tbl call =
     (case outcome of Committed \<Rightarrow> insert_or_replace tbl call | Failed \<Rightarrow> tbl)"

text \<open>
  \<^verbatim>\<open>get_stats\<close>: \<^verbatim>\<open>COUNT(*)\<close> of the table, and \<^verbatim>\<open>COUNT(*) ... GROUP BY ticker\<close>,
  one group for each ticker, here in the order in which the tickers first appear. SQL
  leaves the order of the groups open (SQLite returns them sorted by ticker); the program
  only prints them, and nothing below depends on the order.
\<close>

fun count_into :: "string \<Rightarrow> (string \<times> nat) list \<Rightarrow> (string \<times> nat) list" where
  "count_into t [] = [(t, 1)]"
| "count_into t ((k, n) # groups) =
     (if k = t then (k, Suc n) # groups else (k, n) # count_into t groups)"

definition group_by_ticker :: "table \<Rightarrow> (string \<times> nat) list" where
  "group_by_ticker tbl = foldl (\<lambda>groups r. count_into (ticker (call_of r)) groups) [] tbl"

record stats =
  total :: nat
  by_company :: "(string \<times> nat) list"

definition get_stats :: "table \<Rightarrow> stats" where
  "get_stats tbl = \<lparr>total = length tbl, by_company = group_by_ticker tbl\<rparr>"

text \<open>The upserts of a run, one after the other, each with what SQLite did.\<close>

definition save_all :: "table \<Rightarrow> (sql_outcome \<times> EarningsCall) list \<Rightarrow> table" where
  "save_all tbl saves = foldl (\<lambda>tb (outcome, call). save_call outcome tb call) tbl saves"

section \<open>Notions of the specification\<close>

text \<open>The first position at which a property of positions holds.\<close>

definition first_at :: "(nat \<Rightarrow> bool) \<Rightarrow> nat \<Rightarrow> bool" where
  "first_at P i = (P i \<and> (\<forall>j<i. \<not> P j))"

text \<open>At position \<open>i\<close> of \<open>s\<close> stands a \<open>q\<close>, immediately followed by a digit from 1 to 4.\<close>

definition quarter_at :: "string \<Rightarrow> nat \<Rightarrow> bool" where
  "quarter_at s i = (Suc i < length s \<and> s ! i = CHR ''q'' \<and> s ! Suc i \<in> set ''1234'')"

text \<open>The same with either case of the letter.\<close>

definition quarter_at_nocase :: "string \<Rightarrow> nat \<Rightarrow> bool" where
  "quarter_at_nocase s i =
     (Suc i < length s \<and> (s ! i = CHR ''q'' \<or> s ! i = CHR ''Q'') \<and> s ! Suc i \<in> set ''1234'')"

text \<open>
  At position \<open>i\<close> of \<open>s\<close> stand the four characters \<open>2\<close>, \<open>0\<close> and two decimal
  digits. Nothing is asked of the characters around them, so this is a window of the
  text, which may lie inside a longer run of digits.
\<close>

definition year_at :: "string \<Rightarrow> nat \<Rightarrow> bool" where
  "year_at s i =
     (Suc (Suc (Suc i)) < length s \<and> s ! i = CHR ''2'' \<and> s ! Suc i = CHR ''0''
      \<and> is_digit (s ! Suc (Suc i)) \<and> is_digit (s ! Suc (Suc (Suc i))))"

text \<open>
  The specification's 4-digit number that begins with 20: such a window with no digit
  right before it and none right after it, so that the four digits are a number of
  their own. \<open>has_year_token\<close> says that some position of the text holds one.
\<close>

definition year_token_at :: "string \<Rightarrow> nat \<Rightarrow> bool" where
  "year_token_at s i =
     (year_at s i
      \<and> (if i = 0 then True else \<not> is_digit (s ! (i - 1)))
      \<and> (if i + 4 < length s then \<not> is_digit (s ! (i + 4)) else True))"

definition has_year_token :: "string \<Rightarrow> bool" where
  "has_year_token s = list_ex (year_token_at s) [0..<length s]"

text \<open>
  Every probe of the candidates fails, each in the world its predecessors left: the
  request raised (a network error, a timeout) or the status is not 200.
\<close>

fun all_probes_fail :: "'w env \<Rightarrow> 'w \<Rightarrow> string list \<Rightarrow> bool" where
  "all_probes_fail env w [] = True"
| "all_probes_fail env w (u # us) =
     ((case fst (session_get env w u 5) of Inl e \<Rightarrow> True | Inr resp \<Rightarrow> status_code resp \<noteq> 200)
      \<and> all_probes_fail env (snd (session_get env w u 5)) us)"

section \<open>Sample surroundings\<close>

text \<open>
  Surroundings for the examples: every request raises and advances the world, a counter
  of requests; the clock stands still; \<open>urljoin_resolve\<close> does what \<^verbatim>\<open>urljoin\<close> does
  on the references of the examples, which are of three kinds: a reference whose
  authority opens a square bracket and never closes it raises \<^verbatim>\<open>ValueError\<close>, an
  absolute http reference is the result as it is, and a plain file name is appended to a
  base that ends in a slash.
\<close>

definition example_env :: "nat env" where
  "example_env =
     \<lparr>session_get = (\<lambda>w u t. (Inl RequestException, Suc w)),
      datetime_now = (\<lambda>w. (\<lparr>dt_year = 2026, dt_isoformat = ''2026-11-03T09:30:00''\<rparr>, w)),
      urljoin_resolve = (\<lambda>base u.
         if str_in ''['' u \<and> \<not> str_in '']'' u then Inl ValueError
         else if starts_with ''http'' u then Inr u
         else Inr (base @ u)),
      urlparse = (\<lambda>u. Inr (''https'', ''ir.example.com'')),
      find_all_a = (\<lambda>c. Inr [])\<rparr>"

text \<open>A record for the examples of the database, given by ticker, title and URL.\<close>

definition example_call :: "string \<Rightarrow> string \<Rightarrow> string \<Rightarrow> EarningsCall" where
  "example_call tick ttl u =
     \<lparr>ticker = tick, company = ''Acme Inc.'', title = ttl, url = u, call_type = ''webcast'',
      quarter = ''Q1'', year = 2026, found_on_page = ''https://ir.example.com/'',
      discovered_at = ''2026-11-03T09:30:00''\<rparr>"

section \<open>Facts about the string operations\<close>

lemma starts_with_prefix: "starts_with k s = prefix k s"
  by (induction k s rule: starts_with.induct) auto

text \<open>\<open>str_in\<close> is containment as a contiguous part.\<close>

lemma str_in_sublist: "str_in k s = sublist k s"
  by (induction s) (auto simp: starts_with_prefix sublist_Cons_right)

lemma of_char_lower:
  "(of_char (lower_char c) :: nat)
   = (if (65 \<le> (of_char c :: nat) \<and> (of_char c :: nat) \<le> 90)
         \<or> (192 \<le> (of_char c :: nat) \<and> (of_char c :: nat) \<le> 222
            \<and> (of_char c :: nat) \<noteq> 215)
      then of_char c + 32 else of_char c)"
  by (simp add: lower_char_def Let_def)

lemma char_eq_code: "(c = d) = ((of_char c :: nat) = of_char d)"
  by simp

lemma lower_char_q: "(lower_char c = CHR ''q'') = (c = CHR ''q'' \<or> c = CHR ''Q'')"
  by (auto simp add: char_eq_code of_char_lower)

lemma lower_char_digit: "(lower_char c \<in> set ''1234'') = (c \<in> set ''1234'')"
  by (auto simp add: char_eq_code of_char_lower)

lemma quarter_at_lower: "quarter_at (str_lower s) i = quarter_at_nocase s i"
  by (auto simp add: quarter_at_def quarter_at_nocase_def str_lower_def lower_char_q
        lower_char_digit simp del: set_simps)

lemma first_at_0: "first_at P 0 = P 0"
  by (simp add: first_at_def)

lemma first_at_Suc: "first_at P (Suc i) = (\<not> P 0 \<and> first_at (\<lambda>j. P (Suc j)) i)"
  unfolding first_at_def by (auto simp: less_Suc_eq_0_disj)

lemma first_at_Cons:
  assumes "\<And>i. P (Suc i) = Q i"
  shows "(\<exists>i. first_at P i \<and> R i)
         = ((P 0 \<and> R 0) \<or> (\<not> P 0 \<and> (\<exists>i. first_at Q i \<and> R (Suc i))))"
proof -
  have Q: "Q = (\<lambda>j. P (Suc j))"
    using assms by auto
  show ?thesis
    unfolding Q by (metis first_at_0 first_at_Suc not0_implies_Suc)
qed

lemma never_Cons:
  assumes "\<And>i. P (Suc i) = Q i"
  shows "(\<forall>i. \<not> P i) = (\<not> P 0 \<and> (\<forall>i. \<not> Q i))"
  by (metis assms not0_implies_Suc)

lemma first_at_unique: "first_at P i \<Longrightarrow> first_at P j \<Longrightarrow> i = j"
  unfolding first_at_def by (meson linorder_neqE_nat)

subsection \<open>The search for the quarter\<close>

lemma quarter_at_0: "quarter_at (c # d # cs) 0 = (c = CHR ''q'' \<and> d \<in> set ''1234'')"
  by (simp add: quarter_at_def)

lemma quarter_at_Suc: "quarter_at (c # s) (Suc i) = quarter_at s i"
  by (simp add: quarter_at_def)

lemma quarter_at_short: "length s < 2 \<Longrightarrow> \<not> quarter_at s i"
  by (simp add: quarter_at_def)

lemma re_search_quarter_None: "(re_search_quarter s = None) = (\<forall>i. \<not> quarter_at s i)"
proof (induction s rule: re_search_quarter.induct)
  case (1 c d cs)
  show ?case
    unfolding never_Cons [of "quarter_at (c # d # cs)" "quarter_at (d # cs)", OF quarter_at_Suc]
    using 1 by (auto simp: quarter_at_0 simp del: set_simps)
qed (simp_all add: quarter_at_short)

lemma re_search_quarter_Some:
  "(re_search_quarter s = Some d) = (\<exists>i. first_at (quarter_at s) i \<and> d = s ! Suc i)"
proof (induction s rule: re_search_quarter.induct)
  case (1 c e cs)
  show ?case
    unfolding first_at_Cons [of "quarter_at (c # e # cs)" "quarter_at (e # cs)"
        "\<lambda>i. d = (c # e # cs) ! Suc i", OF quarter_at_Suc]
    using 1 by (auto simp: quarter_at_0 simp del: set_simps)
qed (simp_all add: quarter_at_short first_at_def)

subsection \<open>The search for the year\<close>









section \<open>Facts about the classifier\<close>

lemma has_keyword_iff:
  "list_ex (\<lambda>keyword. str_in keyword s) earnings_keywords =
   (\<exists>k \<in> set [''earnings call'', ''quarterly results'', ''q1'', ''q2'', ''q3'', ''q4'',
      ''conference call'', ''webcast'', ''financial results'', ''investor call''].
      sublist k s)"
  by (simp add: earnings_keywords_def str_in_sublist)

lemma analyze_link_None_iff:
  "(fst (analyze_link env w href text p t c) = Inr None)
   = (\<not> list_ex (\<lambda>keyword. str_in keyword (str_lower text)) earnings_keywords)"
  by (simp add: analyze_link_def Let_def split: prod.splits option.splits sum.splits)

lemma analyze_link_raises:
  "(fst (analyze_link env w href text p t c) = Inl e)
   = (list_ex (\<lambda>keyword. str_in keyword (str_lower text)) earnings_keywords
      \<and> urljoin env p href = Inl e)"
  by (auto simp add: analyze_link_def Let_def split: prod.splits option.splits sum.splits)

lemma analyze_link_Some:
  "(fst (analyze_link env w href text p t c) = Inr (Some r))
   = (list_ex (\<lambda>keyword. str_in keyword (str_lower text)) earnings_keywords
      \<and> (\<exists>full_url. urljoin env p href = Inr full_url \<and>
           r = \<lparr>ticker = t, company = c, title = text, url = full_url,
                 call_type = determine_call_type href (str_lower text),
                 quarter = (case re_search_quarter (str_lower text) of
                              Some d \<Rightarrow> ''Q'' @ [d] | None \<Rightarrow> ''Unknown''),
                 year = (case re_search_year text of
                           Some g \<Rightarrow> int_of_str g
                         | None \<Rightarrow> dt_year (fst (datetime_now env w))),
                 found_on_page = p,
                 discovered_at = dt_isoformat (fst (datetime_now env
                    (case re_search_year text of
                       Some g \<Rightarrow> w | None \<Rightarrow> snd (datetime_now env w))))\<rparr>))"
  by (auto simp add: analyze_link_def Let_def split: prod.splits option.splits sum.splits)

text \<open>Rules that evaluate the classifier on a text that is given.\<close>

lemmas eval_text = str_lower_def char_eq_code of_char_lower earnings_keywords_def
  determine_call_type_def urljoin_def example_env_def

lemma determine_call_type_sublist:
  "determine_call_type href text_lower =
     (if \<exists>ext \<in> set [''.mp3'', ''.wav'', ''.m4a'']. sublist ext (str_lower href) then ''audio''
      else if \<exists>ext \<in> set [''.mp4'', ''.webm'']. sublist ext (str_lower href) then ''video''
      else if sublist ''transcript'' text_lower then ''transcript''
      else ''webcast'')"
  by (simp add: determine_call_type_def str_in_sublist)

lemma urljoin_empty_href: "urljoin env p [] = Inr p"
  by (simp add: urljoin_def)

section \<open>The claims about the classifier\<close>

text \<open>
  C1, as amended. The classifier returns \<open>None\<close> exactly when the lower-cased anchor
  text contains none of the ten keywords. When a keyword is contained, the outcome is
  never \<open>None\<close>: it is a record with the resolved URL for every href that \<open>urljoin\<close>
  resolves against the page URL, and the exception of \<open>urljoin\<close> for the others.
\<close>

theorem keyword_test_sole_filter:
  "((fst (analyze_link env w href text p t c) = Inr None)
    = (\<forall>k \<in> set [''earnings call'', ''quarterly results'', ''q1'', ''q2'', ''q3'', ''q4'',
         ''conference call'', ''webcast'', ''financial results'', ''investor call''].
         \<not> sublist k (str_lower text)))
   \<and> ((\<exists>k \<in> set [''earnings call'', ''quarterly results'', ''q1'', ''q2'', ''q3'', ''q4'',
         ''conference call'', ''webcast'', ''financial results'', ''investor call''].
         sublist k (str_lower text))
      \<longrightarrow> (case urljoin env p href of
             Inr full_url \<Rightarrow>
               (\<exists>r. fst (analyze_link env w href text p t c) = Inr (Some r) \<and> url r = full_url)
           | Inl e \<Rightarrow> fst (analyze_link env w href text p t c) = Inl e))"
proof (intro conjI impI)
  show "(fst (analyze_link env w href text p t c) = Inr None)
    = (\<forall>k \<in> set [''earnings call'', ''quarterly results'', ''q1'', ''q2'', ''q3'', ''q4'',
         ''conference call'', ''webcast'', ''financial results'', ''investor call''].
         \<not> sublist k (str_lower text))"
    unfolding analyze_link_None_iff has_keyword_iff by blast
next
  assume "\<exists>k \<in> set [''earnings call'', ''quarterly results'', ''q1'', ''q2'', ''q3'', ''q4'',
         ''conference call'', ''webcast'', ''financial results'', ''investor call''].
         sublist k (str_lower text)"
  then have kw: "list_ex (\<lambda>keyword. str_in keyword (str_lower text)) earnings_keywords"
    unfolding has_keyword_iff .
  show "case urljoin env p href of
             Inr full_url \<Rightarrow>
               (\<exists>r. fst (analyze_link env w href text p t c) = Inr (Some r) \<and> url r = full_url)
           | Inl e \<Rightarrow> fst (analyze_link env w href text p t c) = Inl e"
  proof (cases "urljoin env p href")
    case (Inl e)
    with kw show ?thesis by (simp add: analyze_link_raises)
  next
    case (Inr full_url)
    with kw show ?thesis by (simp add: analyze_link_Some)
  qed
qed

theorem keyword_test_sole_filter_witness:
  "sublist ''earnings call'' (str_lower ''Q2 2024 Earnings Call'')
   \<and> (\<exists>r. fst (analyze_link example_env 0 ''https://cdn.example.com/q2.mp3''
               ''Q2 2024 Earnings Call'' ''https://ir.example.com/'' ''ACME'' ''Acme Inc.'')
            = Inr (Some r)
          \<and> url r = ''https://cdn.example.com/q2.mp3'')
   \<and> fst (analyze_link example_env 0 ''https://cdn.example.com/q2.mp3''
               ''Contact Us'' ''https://ir.example.com/'' ''ACME'' ''Acme Inc.'') = Inr None"
proof -
  have kw: "sublist ''earnings call'' (str_lower ''Q2 2024 Earnings Call'')"
    by (simp add: str_in_sublist [symmetric] eval_text)
  have uj: "urljoin example_env ''https://ir.example.com/'' ''https://cdn.example.com/q2.mp3''
            = Inr ''https://cdn.example.com/q2.mp3''"
    by (simp add: eval_text)
  have no: "\<forall>k \<in> set [''earnings call'', ''quarterly results'', ''q1'', ''q2'', ''q3'', ''q4'',
         ''conference call'', ''webcast'', ''financial results'', ''investor call''].
         \<not> sublist k (str_lower ''Contact Us'')"
    by (simp add: str_in_sublist [symmetric] eval_text)
  show ?thesis
    using kw uj no
      keyword_test_sole_filter [of example_env 0 "''https://cdn.example.com/q2.mp3''"
        "''Q2 2024 Earnings Call''" "''https://ir.example.com/''" "''ACME''" "''Acme Inc.''"]
      keyword_test_sole_filter [of example_env 0 "''https://cdn.example.com/q2.mp3''"
        "''Contact Us''" "''https://ir.example.com/''" "''ACME''" "''Acme Inc.''"]
    by simp
qed

text \<open>
  C1 as stated fails: the text \<^verbatim>\<open>Q1 Webcast\<close> contains the keyword \<^verbatim>\<open>webcast\<close>, and for
  the href \<^verbatim>\<open>http://[\<close> no record is returned, since \<open>urljoin\<close> raises.
\<close>

theorem keyword_test_sole_filter_counterexample:
  "sublist ''webcast'' (str_lower ''Q1 Webcast'')
   \<and> fst (analyze_link example_env 0 ''http://['' ''Q1 Webcast'' ''https://ir.example.com/''
            ''ACME'' ''Acme Inc.'') = Inl ValueError"
  by (simp add: str_in_sublist [symmetric] analyze_link_raises eval_text)

text \<open>
  C2, as amended. Every returned record has its call type by the fixed priority: audio
  when the lower-cased href contains \<^verbatim>\<open>.mp3\<close>, \<^verbatim>\<open>.wav\<close> or \<^verbatim>\<open>.m4a\<close>, else video when
  it contains \<^verbatim>\<open>.mp4\<close> or \<^verbatim>\<open>.webm\<close>, else transcript when the lower-cased text
  contains \<^verbatim>\<open>transcript\<close>, else webcast; the call type is one of these four. The href
  \<^verbatim>\<open>call.mp3\<close> with the text \<^verbatim>\<open>Q2 Transcript\<close> yields audio; with the text
  \<^verbatim>\<open>Transcript\<close>, which holds no keyword, the classifier returns \<open>None\<close>.
\<close>

theorem call_type_priority:
  "(fst (analyze_link env w href text p t c) = Inr (Some r) \<longrightarrow>
      call_type r =
        (if \<exists>ext \<in> set [''.mp3'', ''.wav'', ''.m4a'']. sublist ext (str_lower href)
           then ''audio''
         else if \<exists>ext \<in> set [''.mp4'', ''.webm'']. sublist ext (str_lower href)
           then ''video''
         else if sublist ''transcript'' (str_lower text) then ''transcript''
         else ''webcast'')
      \<and> call_type r \<in> {''webcast'', ''audio'', ''video'', ''transcript''})
   \<and> (fst (analyze_link env w ''call.mp3'' ''Q2 Transcript'' p t c) = Inr (Some r') \<longrightarrow>
        call_type r' = ''audio'')
   \<and> fst (analyze_link env w ''call.mp3'' ''Transcript'' p t c) = Inr None"
proof (intro conjI impI)
  assume "fst (analyze_link env w href text p t c) = Inr (Some r)"
  then have ct: "call_type r = determine_call_type href (str_lower text)"
    by (auto simp add: analyze_link_Some)
  show "call_type r =
        (if \<exists>ext \<in> set [''.mp3'', ''.wav'', ''.m4a'']. sublist ext (str_lower href)
           then ''audio''
         else if \<exists>ext \<in> set [''.mp4'', ''.webm'']. sublist ext (str_lower href)
           then ''video''
         else if sublist ''transcript'' (str_lower text) then ''transcript''
         else ''webcast'')"
    unfolding ct by (rule determine_call_type_sublist)
  show "call_type r \<in> {''webcast'', ''audio'', ''video'', ''transcript''}"
    unfolding ct determine_call_type_def by simp
next
  assume "fst (analyze_link env w ''call.mp3'' ''Q2 Transcript'' p t c) = Inr (Some r')"
  then have "call_type r' = determine_call_type ''call.mp3'' (str_lower ''Q2 Transcript'')"
    by (auto simp add: analyze_link_Some)
  then show "call_type r' = ''audio''"
    by (simp add: eval_text)
next
  show "fst (analyze_link env w ''call.mp3'' ''Transcript'' p t c) = Inr None"
    by (simp add: analyze_link_None_iff eval_text)
qed

theorem call_type_priority_witness:
  "fst (analyze_link example_env 0 ''call.mp3'' ''Q2 Transcript'' ''https://ir.example.com/''
          ''ACME'' ''Acme Inc.'')
   = Inr (Some \<lparr>ticker = ''ACME'', company = ''Acme Inc.'', title = ''Q2 Transcript'',
                 url = ''https://ir.example.com/call.mp3'', call_type = ''audio'',
                 quarter = ''Q2'', year = 2026, found_on_page = ''https://ir.example.com/'',
                 discovered_at = ''2026-11-03T09:30:00''\<rparr>)
   \<and> call_type \<lparr>ticker = ''ACME'', company = ''Acme Inc.'', title = ''Q2 Transcript'',
                 url = ''https://ir.example.com/call.mp3'', call_type = ''audio'',
                 quarter = ''Q2'', year = 2026, found_on_page = ''https://ir.example.com/'',
                 discovered_at = ''2026-11-03T09:30:00''\<rparr>
     \<in> {''webcast'', ''audio'', ''video'', ''transcript''}"
proof -
  have ret: "fst (analyze_link example_env 0 ''call.mp3'' ''Q2 Transcript''
                    ''https://ir.example.com/'' ''ACME'' ''Acme Inc.'')
   = Inr (Some \<lparr>ticker = ''ACME'', company = ''Acme Inc.'', title = ''Q2 Transcript'',
                 url = ''https://ir.example.com/call.mp3'', call_type = ''audio'',
                 quarter = ''Q2'', year = 2026, found_on_page = ''https://ir.example.com/'',
                 discovered_at = ''2026-11-03T09:30:00''\<rparr>)"
    by (simp add: analyze_link_Some eval_text)
  show ?thesis
    using ret call_type_priority [of example_env 0 "''call.mp3''" "''Q2 Transcript''"
        "''https://ir.example.com/''" "''ACME''" "''Acme Inc.''"]
    by simp
qed

text \<open>
  C2 as stated fails in its example: the text \<^verbatim>\<open>Transcript\<close> does not pass the keyword
  filter, so the href \<^verbatim>\<open>call.mp3\<close> with this text yields no record and no call type.
\<close>

theorem call_type_priority_counterexample:
  "fst (analyze_link example_env 0 ''call.mp3'' ''Transcript'' ''https://ir.example.com/''
          ''ACME'' ''Acme Inc.'') = Inr None"
  by (simp add: analyze_link_None_iff eval_text)

text \<open>
  C3. In every returned record the quarter is \<open>Q\<close> followed by the digit of the first
  place in the lower-cased anchor text where a \<open>q\<close> is immediately followed by a digit
  from 1 to 4, and it is \<open>Unknown\<close> exactly when the lower-cased text has no such place,
  which is exactly when the text itself has none with either case of the letter.
\<close>

theorem quarter_extraction:
  "fst (analyze_link env w href text p t c) = Inr (Some r) \<Longrightarrow>
     (\<forall>i. first_at (quarter_at (str_lower text)) i
          \<longrightarrow> quarter r = ''Q'' @ [str_lower text ! Suc i])
     \<and> ((quarter r = ''Unknown'') = (\<forall>i. \<not> quarter_at (str_lower text) i))
     \<and> ((quarter r = ''Unknown'') = (\<forall>i. \<not> quarter_at_nocase text i))"
proof -
  assume "fst (analyze_link env w href text p t c) = Inr (Some r)"
  then have q: "quarter r = (case re_search_quarter (str_lower text) of
                               Some d \<Rightarrow> ''Q'' @ [d] | None \<Rightarrow> ''Unknown'')"
    by (auto simp add: analyze_link_Some)
  have first: "\<forall>i. first_at (quarter_at (str_lower text)) i
                 \<longrightarrow> quarter r = ''Q'' @ [str_lower text ! Suc i]"
  proof (intro allI impI)
    fix i
    assume "first_at (quarter_at (str_lower text)) i"
    then have "re_search_quarter (str_lower text) = Some (str_lower text ! Suc i)"
      unfolding re_search_quarter_Some by blast
    with q show "quarter r = ''Q'' @ [str_lower text ! Suc i]"
      by simp
  qed
  have unknown: "(quarter r = ''Unknown'') = (\<forall>i. \<not> quarter_at (str_lower text) i)"
    unfolding q re_search_quarter_None [symmetric]
    by (simp split: option.splits)
  from first unknown show ?thesis
    by (simp add: quarter_at_lower)
qed

theorem quarter_extraction_witness:
  "fst (analyze_link example_env 0 ''q3.html'' ''Q3 2024 Conference Call''
          ''https://ir.example.com/'' ''ACME'' ''Acme Inc.'')
   = Inr (Some \<lparr>ticker = ''ACME'', company = ''Acme Inc.'', title = ''Q3 2024 Conference Call'',
                 url = ''https://ir.example.com/q3.html'', call_type = ''webcast'',
                 quarter = ''Q3'', year = 2024, found_on_page = ''https://ir.example.com/'',
                 discovered_at = ''2026-11-03T09:30:00''\<rparr>)
   \<and> first_at (quarter_at (str_lower ''Q3 2024 Conference Call'')) 0
   \<and> ''Q3'' = ''Q'' @ [str_lower ''Q3 2024 Conference Call'' ! Suc 0]"
proof -
  have ret: "fst (analyze_link example_env 0 ''q3.html'' ''Q3 2024 Conference Call''
          ''https://ir.example.com/'' ''ACME'' ''Acme Inc.'')
   = Inr (Some \<lparr>ticker = ''ACME'', company = ''Acme Inc.'', title = ''Q3 2024 Conference Call'',
                 url = ''https://ir.example.com/q3.html'', call_type = ''webcast'',
                 quarter = ''Q3'', year = 2024, found_on_page = ''https://ir.example.com/'',
                 discovered_at = ''2026-11-03T09:30:00''\<rparr>)"
    by (simp add: analyze_link_Some eval_text int_of_str_def digit_val_def is_digit_def)
  have at: "first_at (quarter_at (str_lower ''Q3 2024 Conference Call'')) 0"
    by (simp add: first_at_0 quarter_at_def eval_text)
  show ?thesis
    using ret at quarter_extraction [OF ret]
    by simp
qed




text \<open>
  A number of its own is found by \<open>has_year_token\<close>, and a token is a window.
\<close>

lemma has_year_token_example: "has_year_token ''Q3 2024 Conference Call''"
  by (simp add: has_year_token_def year_token_at_def year_at_def is_digit_def upt_rec)

lemma year_token_is_window: "year_token_at s i \<Longrightarrow> year_at s i"
  by (simp add: year_token_at_def)

text \<open>
  The fallback of C4 at work: a text without such a place gets the year of the clock.
\<close>

lemma year_fallback_example:
  "fst (analyze_link example_env 0 ''w.html'' ''Annual Meeting Webcast''
          ''https://ir.example.com/'' ''ACME'' ''Acme Inc.'')
   = Inr (Some \<lparr>ticker = ''ACME'', company = ''Acme Inc.'', title = ''Annual Meeting Webcast'',
                 url = ''https://ir.example.com/w.html'', call_type = ''webcast'',
                 quarter = ''Unknown'', year = 2026,
                 found_on_page = ''https://ir.example.com/'',
                 discovered_at = ''2026-11-03T09:30:00''\<rparr>)"
  by (simp add: analyze_link_Some eval_text is_digit_def)

text \<open>
  The four characters need not be a number of their own: inside a longer run of digits
  they are found as well.
\<close>

lemma year_inside_digits_example:
  "re_search_year ''Q1 FY120245 results'' = Some ''2024''"
  by (simp add: is_digit_def)

text \<open>
  C5, as amended. An empty anchor text makes the classifier return \<open>None\<close>, whatever the
  href. An empty href does not: the classifier then never raises, it returns \<open>None\<close>
  exactly when the lower-cased text contains none of the ten keywords, and the URL of a
  record it returns is the page URL.
\<close>

theorem empty_input:
  "fst (analyze_link env w href [] p t c) = Inr None
   \<and> ((fst (analyze_link env w [] text p t c) = Inr None)
      = (\<forall>k \<in> set [''earnings call'', ''quarterly results'', ''q1'', ''q2'', ''q3'', ''q4'',
           ''conference call'', ''webcast'', ''financial results'', ''investor call''].
           \<not> sublist k (str_lower text)))
   \<and> fst (analyze_link env w [] text p t c) \<noteq> Inl e
   \<and> (fst (analyze_link env w [] text p t c) = Inr (Some r) \<longrightarrow> url r = p)"
proof (intro conjI impI)
  show "fst (analyze_link env w href [] p t c) = Inr None"
    by (simp add: analyze_link_None_iff earnings_keywords_def str_lower_def)
  show "(fst (analyze_link env w [] text p t c) = Inr None)
      = (\<forall>k \<in> set [''earnings call'', ''quarterly results'', ''q1'', ''q2'', ''q3'', ''q4'',
           ''conference call'', ''webcast'', ''financial results'', ''investor call''].
           \<not> sublist k (str_lower text))"
    unfolding analyze_link_None_iff has_keyword_iff by blast
  show "fst (analyze_link env w [] text p t c) \<noteq> Inl e"
    by (simp add: analyze_link_raises urljoin_def)
next
  assume "fst (analyze_link env w [] text p t c) = Inr (Some r)"
  then show "url r = p"
    by (auto simp add: analyze_link_Some urljoin_empty_href)
qed

theorem empty_input_witness:
  "fst (analyze_link example_env 0 ''call.mp3'' [] ''https://ir.example.com/'' ''ACME''
          ''Acme Inc.'') = Inr None
   \<and> fst (analyze_link example_env 0 [] ''Contact Us'' ''https://ir.example.com/'' ''ACME''
          ''Acme Inc.'') = Inr None"
proof -
  have no: "\<forall>k \<in> set [''earnings call'', ''quarterly results'', ''q1'', ''q2'', ''q3'', ''q4'',
         ''conference call'', ''webcast'', ''financial results'', ''investor call''].
         \<not> sublist k (str_lower ''Contact Us'')"
    by (simp add: str_in_sublist [symmetric] eval_text)
  show ?thesis
    using no
      empty_input [of example_env 0 "''call.mp3''" "''https://ir.example.com/''" "''ACME''"
        "''Acme Inc.''" "''Contact Us''"]
    by simp
qed

text \<open>
  C5 as stated fails: with an empty href and the text \<^verbatim>\<open>Q1 Webcast\<close> the keyword test
  passes and a record is returned, its URL the page's.
\<close>

theorem empty_input_counterexample:
  "fst (analyze_link example_env 0 [] ''Q1 Webcast'' ''https://ir.example.com/'' ''ACME''
          ''Acme Inc.'')
   = Inr (Some \<lparr>ticker = ''ACME'', company = ''Acme Inc.'', title = ''Q1 Webcast'',
                 url = ''https://ir.example.com/'', call_type = ''webcast'',
                 quarter = ''Q1'', year = 2026, found_on_page = ''https://ir.example.com/'',
                 discovered_at = ''2026-11-03T09:30:00''\<rparr>)"
  by (simp add: analyze_link_Some eval_text is_digit_def)

text \<open>
  C9. The test on the href is containment anywhere in the lower-cased href, not a test
  of its end: in every returned record the call type is audio when the lower-cased href
  contains \<^verbatim>\<open>.mp3\<close>, \<^verbatim>\<open>.wav\<close> or \<^verbatim>\<open>.m4a\<close>, and video when it contains \<^verbatim>\<open>.mp4\<close> or
  \<^verbatim>\<open>.webm\<close> and none of the former.
\<close>

theorem call_type_by_containment:
  "fst (analyze_link env w href text p t c) = Inr (Some r) \<Longrightarrow>
     ((\<exists>ext \<in> set [''.mp3'', ''.wav'', ''.m4a'']. sublist ext (str_lower href))
        \<longrightarrow> call_type r = ''audio'')
     \<and> ((\<exists>ext \<in> set [''.mp4'', ''.webm'']. sublist ext (str_lower href))
         \<and> \<not> (\<exists>ext \<in> set [''.mp3'', ''.wav'', ''.m4a'']. sublist ext (str_lower href))
        \<longrightarrow> call_type r = ''video'')"
proof -
  assume "fst (analyze_link env w href text p t c) = Inr (Some r)"
  then have ct: "call_type r = determine_call_type href (str_lower text)"
    by (auto simp add: analyze_link_Some)
  show ?thesis
    unfolding ct determine_call_type_sublist by simp
qed

theorem call_type_by_containment_witness:
  "fst (analyze_link example_env 0 ''https://host/files.mp3archive/page.html''
          ''Q3 2024 Conference Call'' ''https://ir.example.com/'' ''ACME'' ''Acme Inc.'')
   = Inr (Some \<lparr>ticker = ''ACME'', company = ''Acme Inc.'', title = ''Q3 2024 Conference Call'',
                 url = ''https://host/files.mp3archive/page.html'', call_type = ''audio'',
                 quarter = ''Q3'', year = 2024, found_on_page = ''https://ir.example.com/'',
                 discovered_at = ''2026-11-03T09:30:00''\<rparr>)
   \<and> sublist ''.mp3'' (str_lower ''https://host/files.mp3archive/page.html'')
   \<and> \<not> suffix ''.mp3'' (str_lower ''https://host/files.mp3archive/page.html'')"
proof -
  have ret: "fst (analyze_link example_env 0 ''https://host/files.mp3archive/page.html''
          ''Q3 2024 Conference Call'' ''https://ir.example.com/'' ''ACME'' ''Acme Inc.'')
   = Inr (Some \<lparr>ticker = ''ACME'', company = ''Acme Inc.'', title = ''Q3 2024 Conference Call'',
                 url = ''https://host/files.mp3archive/page.html'', call_type = ''audio'',
                 quarter = ''Q3'', year = 2024, found_on_page = ''https://ir.example.com/'',
                 discovered_at = ''2026-11-03T09:30:00''\<rparr>)"
    by (simp add: analyze_link_Some eval_text int_of_str_def digit_val_def is_digit_def)
  have inside: "sublist ''.mp3'' (str_lower ''https://host/files.mp3archive/page.html'')"
    by (simp add: str_in_sublist [symmetric] eval_text)
  have not_end: "\<not> suffix ''.mp3'' (str_lower ''https://host/files.mp3archive/page.html'')"
    by (simp add: suffix_to_prefix eval_text)
  show ?thesis
    using ret inside not_end call_type_by_containment [OF ret]
    by simp
qed

section \<open>The claims about the event pages\<close>

text \<open>A candidate whose probe fails is passed over: the loop goes on in the world after the probe.\<close>

lemma probe_event_urls_fail:
  "(case fst (session_get env w u 5) of Inl e \<Rightarrow> True | Inr resp \<Rightarrow> status_code resp \<noteq> 200)
   \<Longrightarrow> probe_event_urls env w (u # us) t c calls
       = probe_event_urls env (snd (session_get env w u 5)) us t c calls"
  by (cases "session_get env w u 5") (auto split: sum.splits)

lemma probe_event_urls_all_fail:
  "all_probes_fail env w us
   \<Longrightarrow> probe_event_urls env w us t c calls
       = (calls, foldl (\<lambda>w' u. snd (session_get env w' u 5)) w us)"
proof (induction us arbitrary: w)
  case Nil
  show ?case by simp
next
  case (Cons u us)
  from Cons.prems
  have f: "case fst (session_get env w u 5) of
             Inl e \<Rightarrow> True | Inr resp \<Rightarrow> status_code resp \<noteq> 200"
    and rest: "all_probes_fail env (snd (session_get env w u 5)) us"
    by simp_all
  show ?case
    unfolding probe_event_urls_fail [OF f] Cons.IH [OF rest] by simp
qed

text \<open>
  C7. When the candidates are built (\<open>urlparse\<close> has returned) and every probe of them
  fails, by an exception of the request or by a status other than 200, the expansion
  returns the empty list and raises nothing, and the world it leaves is the one after
  one request, with a timeout of 5 seconds, for each of the five candidates in their
  order: none is left out after a failure.
\<close>

theorem find_event_pages_all_fail:
  "urlparse env base_url = Inr (scheme, domain)
   \<Longrightarrow> all_probes_fail env w (event_urls scheme domain)
   \<Longrightarrow> find_event_pages env w base_url t c
       = (Inr [], foldl (\<lambda>w' u. snd (session_get env w' u 5)) w (event_urls scheme domain))
     \<and> length (event_urls scheme domain) = 5"
  by (simp add: find_event_pages_def probe_event_urls_all_fail) (simp add: event_urls_def)

theorem find_event_pages_all_fail_witness:
  "urlparse example_env ''https://ir.example.com/investor'' = Inr (''https'', ''ir.example.com'')
   \<and> all_probes_fail example_env 0 (event_urls ''https'' ''ir.example.com'')
   \<and> find_event_pages example_env 0 ''https://ir.example.com/investor'' ''ACME'' ''Acme Inc.''
     = (Inr [], 5)"
proof -
  have up: "urlparse example_env ''https://ir.example.com/investor''
            = Inr (''https'', ''ir.example.com'')"
    by (simp add: example_env_def)
  have fail: "all_probes_fail example_env 0 (event_urls ''https'' ''ir.example.com'')"
    by (simp add: example_env_def event_urls_def)
  have world: "foldl (\<lambda>w' u. snd (session_get example_env w' u 5)) 0
                 (event_urls ''https'' ''ir.example.com'') = 5"
    by (simp add: example_env_def event_urls_def)
  show ?thesis
    using up fail world
      find_event_pages_all_fail [OF up fail, of "''ACME''" "''Acme Inc.''"]
    by simp
qed

text \<open>
  C10. Only the status 200 is a success. A candidate answered with another status is
  passed over with no further request: the loop goes on in the world right after the
  probe. A candidate answered with 200 is scanned by \<open>scrape_page\<close>. A page that
  \<open>scrape_page\<close> gets with a status other than 200 gives the empty list, with no
  exception and no look at its content.
\<close>

theorem only_status_200_is_success:
  "(session_get env w u 5 = (Inr resp, w1) \<and> status_code resp \<noteq> 200
      \<longrightarrow> probe_event_urls env w (u # us) t c calls = probe_event_urls env w1 us t c calls)
   \<and> (session_get env w u 5 = (Inr resp, w1) \<and> status_code resp = 200
      \<longrightarrow> probe_event_urls env w (u # us) t c calls
          = (case scrape_page env w1 u t c of
               (Inl e, w2) \<Rightarrow> probe_event_urls env w2 us t c calls
             | (Inr page_calls, w2) \<Rightarrow> probe_event_urls env w2 us t c (calls @ page_calls)))
   \<and> (session_get env w u 10 = (Inr resp, w1) \<and> status_code resp \<noteq> 200
      \<longrightarrow> scrape_page env w u t c = (Inr [], w1))"
  by (simp add: scrape_page_def)

theorem only_status_200_is_success_witness:
  "session_get (example_env\<lparr>session_get :=
       (\<lambda>w u t. (Inr \<lparr>status_code = 204, content = ''<a href=x.mp3>Q1 Webcast</a>''\<rparr>, Suc w))\<rparr>)
     0 ''https://ir.example.com/events'' 10
   = (Inr \<lparr>status_code = 204, content = ''<a href=x.mp3>Q1 Webcast</a>''\<rparr>, 1)
   \<and> scrape_page (example_env\<lparr>session_get :=
       (\<lambda>w u t. (Inr \<lparr>status_code = 204, content = ''<a href=x.mp3>Q1 Webcast</a>''\<rparr>, Suc w))\<rparr>)
     0 ''https://ir.example.com/events'' ''ACME'' ''Acme Inc.'' = (Inr [], 1)
   \<and> probe_event_urls (example_env\<lparr>session_get :=
       (\<lambda>w u t. (Inr \<lparr>status_code = 204, content = ''<a href=x.mp3>Q1 Webcast</a>''\<rparr>, Suc w))\<rparr>)
     0 [''https://ir.example.com/events''] ''ACME'' ''Acme Inc.'' [] = ([], 1)"
proof -
  let ?env = "example_env\<lparr>session_get :=
       (\<lambda>w u t. (Inr \<lparr>status_code = 204, content = ''<a href=x.mp3>Q1 Webcast</a>''\<rparr>, Suc w))\<rparr>"
  let ?resp = "\<lparr>status_code = 204, content = ''<a href=x.mp3>Q1 Webcast</a>''\<rparr>"
  have g10: "session_get ?env 0 ''https://ir.example.com/events'' 10 = (Inr ?resp, 1)"
    by simp
  have g5: "session_get ?env 0 ''https://ir.example.com/events'' 5 = (Inr ?resp, 1)"
    by simp
  have st: "status_code ?resp \<noteq> 200"
    by simp
  show ?thesis
    using g10 g5 st
      only_status_200_is_success [of ?env 0 "''https://ir.example.com/events''" ?resp 1
        "[]" "''ACME''" "''Acme Inc.''" "[]"]
    by simp
qed

section \<open>The claims about the database\<close>

lemma length_insert_or_replace:
  "length (insert_or_replace tbl call)
   = Suc (length (filter (\<lambda>r. url (call_of r) \<noteq> url call) tbl))"
  by (simp add: insert_or_replace_def)

lemma filter_insert_or_replace:
  "filter (\<lambda>r. url (call_of r) = url call) (insert_or_replace tbl call)
   = [\<lparr>rowid = next_rowid tbl, call_of = call\<rparr>]"
  by (simp add: insert_or_replace_def)

text \<open>The constraint \<^verbatim>\<open>url TEXT UNIQUE\<close> is kept by every save.\<close>

lemma distinct_insert_or_replace:
  "distinct (map (\<lambda>r. url (call_of r)) tbl)
   \<Longrightarrow> distinct (map (\<lambda>r. url (call_of r)) (insert_or_replace tbl call))"
  by (auto simp add: insert_or_replace_def distinct_map_filter)

lemma distinct_save_all:
  "distinct (map (\<lambda>r. url (call_of r)) tbl)
   \<Longrightarrow> distinct (map (\<lambda>r. url (call_of r)) (save_all tbl saves))"
proof (induction saves arbitrary: tbl)
  case Nil
  then show ?case by (simp add: save_all_def)
next
  case (Cons s saves)
  obtain outcome call where s: "s = (outcome, call)"
    by (cases s)
  have "distinct (map (\<lambda>r. url (call_of r)) (save_call outcome tbl call))"
    using Cons.prems
    by (cases outcome) (simp_all add: save_call_def distinct_insert_or_replace)
  from Cons.IH [OF this] show ?case
    by (simp add: save_all_def s)
qed

text \<open>
  C6. From any table, two committed saves of records with one URL leave exactly one row
  with this URL, and the row holds the second record, so its title; the second save
  leaves the number of rows as the first made it.
\<close>

theorem upsert_last_write_wins:
  "url c1 = url c2 \<Longrightarrow>
     length (filter (\<lambda>r. url (call_of r) = url c2)
               (save_call Committed (save_call Committed tbl c1) c2)) = 1
     \<and> (\<forall>r \<in> set (save_call Committed (save_call Committed tbl c1) c2).
           url (call_of r) = url c2 \<longrightarrow> call_of r = c2 \<and> title (call_of r) = title c2)
     \<and> length (save_call Committed (save_call Committed tbl c1) c2)
       = length (save_call Committed tbl c1)"
proof -
  assume same: "url c1 = url c2"
  let ?t1 = "insert_or_replace tbl c1"
  let ?t2 = "insert_or_replace ?t1 c2"
  have one: "filter (\<lambda>r. url (call_of r) = url c2) ?t2
             = [\<lparr>rowid = next_rowid ?t1, call_of = c2\<rparr>]"
    by (rule filter_insert_or_replace)
  have rows: "\<forall>r \<in> set ?t2. url (call_of r) = url c2 \<longrightarrow> call_of r = c2"
  proof (intro ballI impI)
    fix r
    assume "r \<in> set ?t2" and "url (call_of r) = url c2"
    then have "r \<in> set (filter (\<lambda>r. url (call_of r) = url c2) ?t2)"
      by simp
    then show "call_of r = c2"
      unfolding one by simp
  qed
  have "filter (\<lambda>r. url (call_of r) \<noteq> url c2) ?t1
        = filter (\<lambda>r. url (call_of r) \<noteq> url c1) tbl"
    using same by (simp add: insert_or_replace_def)
  then have len: "length ?t2 = length ?t1"
    by (simp add: length_insert_or_replace)
  from one rows len show ?thesis
    by (auto simp add: save_call_def)
qed

theorem upsert_last_write_wins_witness:
  "url (example_call ''ACME'' ''Q1 Webcast'' ''https://ir.example.com/q1'')
   = url (example_call ''ACME'' ''Q1 Webcast (replay)'' ''https://ir.example.com/q1'')
   \<and> length (save_call Committed
        (save_call Committed
           [\<lparr>rowid = 1, call_of = example_call ''ACME'' ''Q4 Call'' ''https://ir.example.com/q4''\<rparr>]
           (example_call ''ACME'' ''Q1 Webcast'' ''https://ir.example.com/q1''))
        (example_call ''ACME'' ''Q1 Webcast (replay)'' ''https://ir.example.com/q1'')) = 2
   \<and> map (\<lambda>r. title (call_of r)) (save_call Committed
        (save_call Committed
           [\<lparr>rowid = 1, call_of = example_call ''ACME'' ''Q4 Call'' ''https://ir.example.com/q4''\<rparr>]
           (example_call ''ACME'' ''Q1 Webcast'' ''https://ir.example.com/q1''))
        (example_call ''ACME'' ''Q1 Webcast (replay)'' ''https://ir.example.com/q1''))
     = [''Q4 Call'', ''Q1 Webcast (replay)'']"
proof -
  have same: "url (example_call ''ACME'' ''Q1 Webcast'' ''https://ir.example.com/q1'')
   = url (example_call ''ACME'' ''Q1 Webcast (replay)'' ''https://ir.example.com/q1'')"
    by (simp add: example_call_def)
  have first: "length (save_call Committed
           [\<lparr>rowid = 1, call_of = example_call ''ACME'' ''Q4 Call'' ''https://ir.example.com/q4''\<rparr>]
           (example_call ''ACME'' ''Q1 Webcast'' ''https://ir.example.com/q1'')) = 2"
    by (simp add: save_call_def insert_or_replace_def example_call_def)
  have titles: "map (\<lambda>r. title (call_of r)) (save_call Committed
        (save_call Committed
           [\<lparr>rowid = 1, call_of = example_call ''ACME'' ''Q4 Call'' ''https://ir.example.com/q4''\<rparr>]
           (example_call ''ACME'' ''Q1 Webcast'' ''https://ir.example.com/q1''))
        (example_call ''ACME'' ''Q1 Webcast (replay)'' ''https://ir.example.com/q1''))
     = [''Q4 Call'', ''Q1 Webcast (replay)'']"
    by (simp add: save_call_def insert_or_replace_def example_call_def)
  show ?thesis
    using same first titles
      upsert_last_write_wins [OF same,
        of "[\<lparr>rowid = 1, call_of = example_call ''ACME'' ''Q4 Call'' ''https://ir.example.com/q4''\<rparr>]"]
    by simp
qed

subsection \<open>The statistics\<close>

lemma sum_count_into: "sum_list (map snd (count_into t groups)) = Suc (sum_list (map snd groups))"
  by (induction t groups rule: count_into.induct) auto

lemma sum_group_fold:
  "sum_list (map snd (foldl (\<lambda>groups r. count_into (ticker (call_of r)) groups) acc tbl))
   = sum_list (map snd acc) + length tbl"
  by (induction tbl arbitrary: acc) (simp_all add: sum_count_into)

lemma sum_group_by_ticker: "sum_list (map snd (group_by_ticker tbl)) = length tbl"
  by (simp add: group_by_ticker_def sum_group_fold)

text \<open>
  \<open>group_by_ticker\<close> is the grouping of SQL: one group for each ticker of the table,
  with the number of its rows.
\<close>

lemma fst_count_into:
  "fst ` set (count_into t groups) = insert t (fst ` set groups)"
  by (induction t groups rule: count_into.induct) auto

lemma distinct_count_into:
  "distinct (map fst groups) \<Longrightarrow> distinct (map fst (count_into t groups))"
proof (induction t groups rule: count_into.induct)
  case (1 t)
  show ?case by simp
next
  case (2 t k n groups)
  then show ?case
    using fst_count_into [of t groups] by auto
qed

lemma map_of_count_into:
  "map_of (count_into t groups) k
   = (if k = t then Some (case map_of groups t of None \<Rightarrow> 1 | Some n \<Rightarrow> Suc n)
      else map_of groups k)"
  by (induction t groups rule: count_into.induct) auto

lemma distinct_group_fold:
  "distinct (map fst acc) \<Longrightarrow>
   distinct (map fst (foldl (\<lambda>groups r. count_into (ticker (call_of r)) groups) acc tbl))"
  by (induction tbl arbitrary: acc) (simp_all add: distinct_count_into)

lemma map_of_group_fold:
  "map_of (foldl (\<lambda>groups r. count_into (ticker (call_of r)) groups) acc tbl) k
   = (case map_of acc k of
        Some m \<Rightarrow> Some (m + length (filter (\<lambda>r. ticker (call_of r) = k) tbl))
      | None \<Rightarrow>
          if filter (\<lambda>r. ticker (call_of r) = k) tbl = [] then None
          else Some (length (filter (\<lambda>r. ticker (call_of r) = k) tbl)))"
proof (induction tbl arbitrary: acc)
  case Nil
  show ?case by (simp split: option.splits)
next
  case (Cons r tbl)
  show ?case
    unfolding foldl_Cons Cons.IH map_of_count_into
    by (simp split: option.splits)
qed

lemma group_by_ticker_counts:
  "distinct (map fst (group_by_ticker tbl))
   \<and> map_of (group_by_ticker tbl) k
     = (if filter (\<lambda>r. ticker (call_of r) = k) tbl = [] then None
        else Some (length (filter (\<lambda>r. ticker (call_of r) = k) tbl)))"
  by (simp add: group_by_ticker_def distinct_group_fold map_of_group_fold)

text \<open>
  C8. After any sequence of upserts, committed or failed, on a new or an earlier
  database, the counts of the tickers in the statistics add up to the total.
\<close>

theorem stats_consistent:
  "sum_list (map snd (by_company (get_stats (save_all (init_db existing) saves))))
   = total (get_stats (save_all (init_db existing) saves))"
  by (simp add: get_stats_def sum_group_by_ticker)

theorem stats_consistent_witness:
  "get_stats (save_all (init_db None)
     [(Committed, example_call ''ACME'' ''Q1 Webcast'' ''https://ir.example.com/q1''),
      (Committed, example_call ''INIT'' ''Q2 Webcast'' ''https://ir.example.org/q2''),
      (Failed, example_call ''INIT'' ''Q3 Webcast'' ''https://ir.example.org/q3''),
      (Committed, example_call ''ACME'' ''Q4 Webcast'' ''https://ir.example.com/q4''),
      (Committed, example_call ''ACME'' ''Q1 Webcast (replay)'' ''https://ir.example.com/q1'')])
   = \<lparr>total = 3, by_company = [(''INIT'', 1), (''ACME'', 2)]\<rparr>
   \<and> sum_list (map snd [(''INIT'', 1 :: nat), (''ACME'', 2)]) = 3"
proof -
  have st: "get_stats (save_all (init_db None)
     [(Committed, example_call ''ACME'' ''Q1 Webcast'' ''https://ir.example.com/q1''),
      (Committed, example_call ''INIT'' ''Q2 Webcast'' ''https://ir.example.org/q2''),
      (Failed, example_call ''INIT'' ''Q3 Webcast'' ''https://ir.example.org/q3''),
      (Committed, example_call ''ACME'' ''Q4 Webcast'' ''https://ir.example.com/q4''),
      (Committed, example_call ''ACME'' ''Q1 Webcast (replay)'' ''https://ir.example.com/q1'')])
   = \<lparr>total = 3, by_company = [(''INIT'', 1), (''ACME'', 2)]\<rparr>"
    by (simp add: get_stats_def save_all_def init_db_def save_call_def insert_or_replace_def
          group_by_ticker_def example_call_def)
  show ?thesis
    using st
      stats_consistent [of None
        "[(Committed, example_call ''ACME'' ''Q1 Webcast'' ''https://ir.example.com/q1''),
      (Committed, example_call ''INIT'' ''Q2 Webcast'' ''https://ir.example.org/q2''),
      (Failed, example_call ''INIT'' ''Q3 Webcast'' ''https://ir.example.org/q3''),
      (Committed, example_call ''ACME'' ''Q4 Webcast'' ''https://ir.example.com/q4''),
      (Committed, example_call ''ACME'' ''Q1 Webcast (replay)'' ''https://ir.example.com/q1'')]"]
    by simp
qed

end
